theory Spec2Isabelle
  imports Complex_Main
begin

section \<open>Python values used by the workflow engine\<close>

text \<open>
  Condition expressions are JSON documents: null, booleans, integers, floats, strings,
  lists and string-keyed dictionaries.  A dictionary is an association list in insertion
  order.  A record snapshot holds such values and, besides, whatever the attributes of a
  model instance are (a \<open>Decimal\<close>, a \<open>datetime\<close>, a \<open>UUID\<close>, a bound method): \<open>PObj n\<close> is
  such an object, identified by \<open>n\<close>.  Nothing is fixed about an object here: its truth
  value, its equality, its ordering, its arithmetic and its membership test are those the
  interpreter gives it (the record \<open>runtime\<close> below).  \<open>PFloat r\<close> is the finite float whose
  value is the rational \<open>r\<close>.
\<close>

datatype pyval =
    PNone
  | PBool bool
  | PInt int
  | PFloat rat
  | PStr string
  | PList "pyval list"
  | PDict "(string \<times> pyval) list"
  | PObj nat

text \<open>The exceptions the engine meets; \<open>OtherError\<close> is any other exception class, by
  name.\<close>

datatype pyerr =
    TypeError
  | IndexError
  | AttributeError
  | ValueError
  | ZeroDivisionError
  | RecursionError
  | OtherError string

type_synonym pydict = "(string \<times> pyval) list"

text \<open>\<open>hasattr\<close>/\<open>getattr\<close> of the Python runtime on a value that is not a dictionary:
  \<open>None\<close> when the value has no such attribute.\<close>

type_synonym attrs = "pyval \<Rightarrow> string \<Rightarrow> pyval option"

text \<open>The record a workflow instance is attached to: \<open>str(record.pk)\<close>, the result of
  \<open>to_dict()\<close> when the record has that method, its instance attributes (\<open>__dict__\<close>), and
  the attributes found on its class instead (\<open>pk\<close>, properties, methods), each with the
  value \<open>getattr\<close> returns.\<close>

record PyRecord =
  rec_pk :: string
  rec_to_dict :: "pydict option"
  rec_dict :: pydict
  rec_class_attrs :: pydict

datatype cmpop = Lt | Gt | Le | Ge

datatype arith = OpAdd | OpSub | OpMul | OpDiv

datatype num = NInt int | NFloat rat

text \<open>
  What the interpreter and the libraries supply.

  \<^item> \<open>py_getattr\<close>, \<open>py_str\<close>: attribute lookup and \<open>str()\<close>.
  \<^item> \<open>obj_truthy\<close>, \<open>obj_eq\<close>, \<open>obj_cmp\<close>, \<open>obj_arith\<close>, \<open>obj_neg\<close>, \<open>obj_in\<close>: the truth value
    of an object, and the result of \<open>==\<close>, of an ordering, of a binary arithmetic operator,
    of unary minus and of \<open>in\<close> when an operand is an object.
  \<^item> \<open>float_arith\<close>: the result of an arithmetic operator on two numbers of which one is a
    float, and of true division on two integers (a float, rounded as the machine rounds;
    an infinity or a not-a-number, which is an object here; or \<open>OverflowError\<close>).
  \<^item> \<open>setattr_save\<close>: \<open>setattr(record, name, value)\<close> followed by
    \<open>record.save(update_fields=[name])\<close>: the record as written, or the exception that the
    descriptor, the field or the database raises.
  \<^item> \<open>now\<close>: the clock (\<open>timezone.now()\<close>, read as one instant for the length of a call).
  \<^item> \<open>stack_room\<close>: the interpreter bounds the depth of its call stack
    (\<open>sys.getrecursionlimit()\<close>); this is the number of calls of \<open>execute_transition\<close>,
    nested in one another through \<open>_check_auto_transition\<close>, that the stack still has room
    for when the engine is called.
\<close>

record runtime =
  py_getattr :: attrs
  py_str :: "pyval \<Rightarrow> string"
  obj_truthy :: "nat \<Rightarrow> bool"
  obj_eq :: "pyval \<Rightarrow> pyval \<Rightarrow> bool"
  obj_cmp :: "cmpop \<Rightarrow> pyval \<Rightarrow> pyval \<Rightarrow> pyerr + bool"
  obj_arith :: "arith \<Rightarrow> pyval \<Rightarrow> pyval \<Rightarrow> pyerr + pyval"
  obj_neg :: "nat \<Rightarrow> pyerr + pyval"
  obj_in :: "pyval \<Rightarrow> pyval \<Rightarrow> pyerr + bool"
  float_arith :: "arith \<Rightarrow> num \<Rightarrow> num \<Rightarrow> pyerr + pyval"
  setattr_save :: "PyRecord \<Rightarrow> string \<Rightarrow> pyval \<Rightarrow> pyerr + PyRecord"
  now :: int
  stack_room :: nat

definition ebind :: "pyerr + 'a \<Rightarrow> ('a \<Rightarrow> pyerr + 'b) \<Rightarrow> pyerr + 'b" where
  "ebind m f = (case m of Inl e \<Rightarrow> Inl e | Inr v \<Rightarrow> f v)"

lemma ebind_simps [simp]:
  "ebind (Inl e) f = Inl e"
  "ebind (Inr v) f = f v"
  by (simp_all add: ebind_def)

lemma ebind_cong [fundef_cong]:
  "m = m' \<Longrightarrow> (\<And>v. m' = Inr v \<Longrightarrow> f v = g v) \<Longrightarrow> ebind m f = ebind m' g"
  by (cases m') (simp_all add: ebind_def)

subsection \<open>Truthiness, numbers and arithmetic\<close>

fun truthy :: "runtime \<Rightarrow> pyval \<Rightarrow> bool" where
  "truthy rt PNone = False"
| "truthy rt (PBool b) = b"
| "truthy rt (PInt i) = (i \<noteq> 0)"
| "truthy rt (PFloat r) = (r \<noteq> 0)"
| "truthy rt (PStr s) = (s \<noteq> [])"
| "truthy rt (PList xs) = (xs \<noteq> [])"
| "truthy rt (PDict kvs) = (kvs \<noteq> [])"
| "truthy rt (PObj n) = obj_truthy rt n"

fun is_obj :: "pyval \<Rightarrow> bool" where
  "is_obj (PObj n) = True"
| "is_obj v = False"

text \<open>The built-in numbers.  \<open>bool\<close> is a subclass of \<open>int\<close>: \<open>True\<close> counts as 1 and
  \<open>False\<close> as 0.\<close>

fun as_num :: "pyval \<Rightarrow> num option" where
  "as_num (PBool b) = Some (NInt (if b then 1 else 0))"
| "as_num (PInt i) = Some (NInt i)"
| "as_num (PFloat r) = Some (NFloat r)"
| "as_num v = None"

fun num_val :: "num \<Rightarrow> rat" where
  "num_val (NInt i) = of_int i"
| "num_val (NFloat r) = r"

text \<open>An arithmetic operator on two built-in numbers: integers add, subtract and multiply
  exactly; true division by a number equal to zero raises; every other result is a float,
  computed by the interpreter.\<close>

fun num_arith :: "runtime \<Rightarrow> arith \<Rightarrow> num \<Rightarrow> num \<Rightarrow> pyerr + pyval" where
  "num_arith rt OpAdd (NInt a) (NInt b) = Inr (PInt (a + b))"
| "num_arith rt OpSub (NInt a) (NInt b) = Inr (PInt (a - b))"
| "num_arith rt OpMul (NInt a) (NInt b) = Inr (PInt (a * b))"
| "num_arith rt OpDiv x y =
     (if num_val y = 0 then Inl ZeroDivisionError else float_arith rt OpDiv x y)"
| "num_arith rt opr x y = float_arith rt opr x y"

text \<open>\<open>a + b\<close>.\<close>

definition py_add :: "runtime \<Rightarrow> pyval \<Rightarrow> pyval \<Rightarrow> pyerr + pyval" where
  "py_add rt a b =
     (if is_obj a \<or> is_obj b then obj_arith rt OpAdd a b
      else
        (case (as_num a, as_num b) of
           (Some x, Some y) \<Rightarrow> num_arith rt OpAdd x y
         | _ \<Rightarrow>
           (case (a, b) of
              (PStr s, PStr t) \<Rightarrow> Inr (PStr (s @ t))
            | (PList xs, PList ys) \<Rightarrow> Inr (PList (xs @ ys))
            | _ \<Rightarrow> Inl TypeError)))"

text \<open>\<open>a - b\<close> and \<open>-a\<close>.\<close>

definition py_sub :: "runtime \<Rightarrow> pyval \<Rightarrow> pyval \<Rightarrow> pyerr + pyval" where
  "py_sub rt a b =
     (if is_obj a \<or> is_obj b then obj_arith rt OpSub a b
      else
        (case (as_num a, as_num b) of
           (Some x, Some y) \<Rightarrow> num_arith rt OpSub x y
         | _ \<Rightarrow> Inl TypeError))"

definition py_neg :: "runtime \<Rightarrow> pyval \<Rightarrow> pyerr + pyval" where
  "py_neg rt a =
     (case a of
        PObj n \<Rightarrow> obj_neg rt n
      | _ \<Rightarrow>
        (case as_num a of
           Some (NInt i) \<Rightarrow> Inr (PInt (- i))
         | Some (NFloat r) \<Rightarrow> Inr (PFloat (- r))
         | None \<Rightarrow> Inl TypeError))"

text \<open>\<open>a * b\<close>: numbers multiply; a string or list times an integer is repeated
  (not at all when the integer is not positive).\<close>

definition py_mul :: "runtime \<Rightarrow> pyval \<Rightarrow> pyval \<Rightarrow> pyerr + pyval" where
  "py_mul rt a b =
     (if is_obj a \<or> is_obj b then obj_arith rt OpMul a b
      else
        (case (as_num a, as_num b) of
           (Some x, Some y) \<Rightarrow> num_arith rt OpMul x y
         | (Some (NInt n), None) \<Rightarrow>
           (case b of
              PStr s \<Rightarrow> Inr (PStr (concat (replicate (nat n) s)))
            | PList xs \<Rightarrow> Inr (PList (concat (replicate (nat n) xs)))
            | _ \<Rightarrow> Inl TypeError)
         | (None, Some (NInt n)) \<Rightarrow>
           (case a of
              PStr s \<Rightarrow> Inr (PStr (concat (replicate (nat n) s)))
            | PList xs \<Rightarrow> Inr (PList (concat (replicate (nat n) xs)))
            | _ \<Rightarrow> Inl TypeError)
         | _ \<Rightarrow> Inl TypeError))"

text \<open>\<open>a / b\<close>: true division.\<close>

definition py_truediv :: "runtime \<Rightarrow> pyval \<Rightarrow> pyval \<Rightarrow> pyerr + pyval" where
  "py_truediv rt a b =
     (if is_obj a \<or> is_obj b then obj_arith rt OpDiv a b
      else
        (case (as_num a, as_num b) of
           (Some x, Some y) \<Rightarrow> num_arith rt OpDiv x y
         | _ \<Rightarrow> Inl TypeError))"

subsection \<open>Equality, ordering and membership\<close>

text \<open>\<open>a == b\<close>.  An object decides for itself; numbers compare by value (\<open>True == 1\<close>,
  \<open>1 == 1.0\<close>), lists element by element, dictionaries by their keys and the values under
  them.\<close>

fun py_eq :: "runtime \<Rightarrow> pyval \<Rightarrow> pyval \<Rightarrow> bool"
  and py_eq_list :: "runtime \<Rightarrow> pyval list \<Rightarrow> pyval list \<Rightarrow> bool"
  and py_eq_items :: "runtime \<Rightarrow> pydict \<Rightarrow> pydict \<Rightarrow> bool" where
  "py_eq rt (PObj n) b = obj_eq rt (PObj n) b"
| "py_eq rt a (PObj m) = obj_eq rt a (PObj m)"
| "py_eq rt PNone PNone = True"
| "py_eq rt (PStr s) (PStr t) = (s = t)"
| "py_eq rt (PList xs) (PList ys) = py_eq_list rt xs ys"
| "py_eq rt (PDict kvs) (PDict kvs') =
     (set (map fst kvs) = set (map fst kvs') \<and> py_eq_items rt kvs kvs')"
| "py_eq rt a b =
     (case (as_num a, as_num b) of
        (Some x, Some y) \<Rightarrow> num_val x = num_val y
      | _ \<Rightarrow> False)"
| "py_eq_list rt [] [] = True"
| "py_eq_list rt (x # xs) (y # ys) = (py_eq rt x y \<and> py_eq_list rt xs ys)"
| "py_eq_list rt _ _ = False"
| "py_eq_items rt [] kvs' = True"
| "py_eq_items rt ((k, v) # kvs) kvs' =
     ((case map_of kvs' k of None \<Rightarrow> False | Some v' \<Rightarrow> py_eq rt v v') \<and> py_eq_items rt kvs kvs')"

text \<open>Ordering.  An object decides for itself; numbers are ordered by value, strings by
  code point, lists by their first unequal elements; every other pair of operands raises
  \<open>TypeError\<close>.\<close>

fun cmp_rat :: "cmpop \<Rightarrow> rat \<Rightarrow> rat \<Rightarrow> bool" where
  "cmp_rat Lt x y = (x < y)"
| "cmp_rat Gt x y = (x > y)"
| "cmp_rat Le x y = (x \<le> y)"
| "cmp_rat Ge x y = (x \<ge> y)"

fun str_lt :: "string \<Rightarrow> string \<Rightarrow> bool" where
  "str_lt [] [] = False"
| "str_lt [] (d # t) = True"
| "str_lt (c # s) [] = False"
| "str_lt (c # s) (d # t) =
     ((of_char c :: nat) < of_char d \<or> ((of_char c :: nat) = of_char d \<and> str_lt s t))"

fun cmp_str :: "cmpop \<Rightarrow> string \<Rightarrow> string \<Rightarrow> bool" where
  "cmp_str Lt s t = str_lt s t"
| "cmp_str Gt s t = str_lt t s"
| "cmp_str Le s t = (\<not> str_lt t s)"
| "cmp_str Ge s t = (\<not> str_lt s t)"

fun py_cmp :: "runtime \<Rightarrow> cmpop \<Rightarrow> pyval \<Rightarrow> pyval \<Rightarrow> pyerr + bool"
  and py_cmp_list :: "runtime \<Rightarrow> cmpop \<Rightarrow> pyval list \<Rightarrow> pyval list \<Rightarrow> pyerr + bool" where
  "py_cmp rt opr (PObj n) b = obj_cmp rt opr (PObj n) b"
| "py_cmp rt opr a (PObj m) = obj_cmp rt opr a (PObj m)"
| "py_cmp rt opr (PStr s) (PStr t) = Inr (cmp_str opr s t)"
| "py_cmp rt opr (PList xs) (PList ys) = py_cmp_list rt opr xs ys"
| "py_cmp rt opr a b =
     (case (as_num a, as_num b) of
        (Some x, Some y) \<Rightarrow> Inr (cmp_rat opr (num_val x) (num_val y))
      | _ \<Rightarrow> Inl TypeError)"
| "py_cmp_list rt opr [] [] = Inr (opr = Le \<or> opr = Ge)"
| "py_cmp_list rt opr [] (y # ys) = Inr (opr = Lt \<or> opr = Le)"
| "py_cmp_list rt opr (x # xs) [] = Inr (opr = Gt \<or> opr = Ge)"
| "py_cmp_list rt opr (x # xs) (y # ys) =
     (if py_eq rt x y then py_cmp_list rt opr xs ys else py_cmp rt opr x y)"

text \<open>Substring test, \<open>t in s\<close> on strings.\<close>

fun starts_with :: "string \<Rightarrow> string \<Rightarrow> bool" where
  "starts_with s [] = True"
| "starts_with [] (d # t) = False"
| "starts_with (c # s) (d # t) = (c = d \<and> starts_with s t)"

fun str_contains :: "string \<Rightarrow> string \<Rightarrow> bool" where
  "str_contains [] t = (t = [])"
| "str_contains (c # s) t = (starts_with (c # s) t \<or> str_contains s t)"

text \<open>\<open>value in collection\<close>.  A list is searched with \<open>==\<close>; a collection that is an
  object, and an object looked for in a string or a dictionary, decide for themselves; a
  string accepts only a string on the left; a dictionary is searched by key and refuses an
  unhashable list or dictionary; anything else is not iterable.\<close>

fun py_in :: "runtime \<Rightarrow> pyval \<Rightarrow> pyval \<Rightarrow> pyerr + bool" where
  "py_in rt v (PList xs) = Inr (list_ex (py_eq rt v) xs)"
| "py_in rt v (PObj m) = obj_in rt v (PObj m)"
| "py_in rt (PObj n) (PStr s) = obj_in rt (PObj n) (PStr s)"
| "py_in rt (PObj n) (PDict kvs) = obj_in rt (PObj n) (PDict kvs)"
| "py_in rt (PStr t) (PStr s) = Inr (str_contains s t)"
| "py_in rt v (PStr s) = Inl TypeError"
| "py_in rt (PList xs) (PDict kvs) = Inl TypeError"
| "py_in rt (PDict kvs') (PDict kvs) = Inl TypeError"
| "py_in rt (PStr k) (PDict kvs) = Inr (k \<in> set (map fst kvs))"
| "py_in rt v (PDict kvs) = Inr False"
| "py_in rt v c = Inl TypeError"

text \<open>\<open>all(...)\<close> and \<open>any(...)\<close> over a generator: the elements are produced in order, the
  first exception propagates, and the result is decided at the first falsy (truthy)
  element.  The same shape serves the \<open>for\<close> loops of the \<open>all\<close> and \<open>some\<close> operators.\<close>

fun py_all :: "runtime \<Rightarrow> (pyerr + pyval) list \<Rightarrow> pyerr + pyval" where
  "py_all rt [] = Inr (PBool True)"
| "py_all rt (Inl e # rs) = Inl e"
| "py_all rt (Inr v # rs) = (if truthy rt v then py_all rt rs else Inr (PBool False))"

fun py_any :: "runtime \<Rightarrow> (pyerr + pyval) list \<Rightarrow> pyerr + pyval" where
  "py_any rt [] = Inr (PBool False)"
| "py_any rt (Inl e # rs) = Inl e"
| "py_any rt (Inr v # rs) = (if truthy rt v then Inr (PBool True) else py_any rt rs)"

text \<open>\<open>sum(...)\<close> (the accumulator starts at 0 and each element is added to it) and the
  product loop \<open>result = 1; for arg in args: result *= ...\<close>.\<close>

fun py_sum :: "runtime \<Rightarrow> pyval \<Rightarrow> (pyerr + pyval) list \<Rightarrow> pyerr + pyval" where
  "py_sum rt acc [] = Inr acc"
| "py_sum rt acc (Inl e # rs) = Inl e"
| "py_sum rt acc (Inr v # rs) = ebind (py_add rt acc v) (\<lambda>acc'. py_sum rt acc' rs)"

fun py_prod :: "runtime \<Rightarrow> pyval \<Rightarrow> (pyerr + pyval) list \<Rightarrow> pyerr + pyval" where
  "py_prod rt result [] = Inr result"
| "py_prod rt result (Inl e # rs) = Inl e"
| "py_prod rt result (Inr v # rs) = ebind (py_mul rt result v) (\<lambda>result'. py_prod rt result' rs)"

text \<open>\<open>{**data, key: v}\<close>: an existing key keeps its position, a new key goes last.\<close>

fun dict_set :: "pydict \<Rightarrow> string \<Rightarrow> pyval \<Rightarrow> pydict" where
  "dict_set [] k v = [(k, v)]"
| "dict_set ((k', v') # kvs) k v =
     (if k' = k then (k, v) # kvs else (k', v') # dict_set kvs k v)"

text \<open>\<open>s.split('.')\<close>.\<close>

fun split_dot :: "string \<Rightarrow> string list" where
  "split_dot [] = [[]]"
| "split_dot (c # cs) =
     (if c = CHR ''.'' then [] # split_dot cs
      else (case split_dot cs of [] \<Rightarrow> [[c]] | p # ps \<Rightarrow> (c # p) # ps))"

section \<open>Condition evaluation (engine/conditions.py)\<close>

text \<open>One pass of the loop body of \<open>_get_var\<close>: \<open>value.get(part)\<close> on a dictionary (null
  when the key is absent), \<open>getattr\<close> on a value that has the attribute, and \<open>None\<close> when
  neither applies (the \<open>else: return default\<close> branch).\<close>

definition get_part :: "runtime \<Rightarrow> pyval \<Rightarrow> string \<Rightarrow> pyval option" where
  "get_part rt v part =
     (case v of
        PDict d \<Rightarrow> Some (case map_of d part of None \<Rightarrow> PNone | Some x \<Rightarrow> x)
      | _ \<Rightarrow> py_getattr rt v part)"

fun get_var_loop :: "runtime \<Rightarrow> string list \<Rightarrow> pyval \<Rightarrow> pyval \<Rightarrow> pyval" where
  "get_var_loop rt [] v dflt = v"
| "get_var_loop rt (part # parts) v dflt =
     (case get_part rt v part of
        None \<Rightarrow> dflt
      | Some v' \<Rightarrow> if v' = PNone then dflt else get_var_loop rt parts v' dflt)"

text \<open>\<open>_get_var(data, var_name, default)\<close>.  A falsy name returns the data itself; a truthy
  name that is not a string has no \<open>split\<close>.  (The name is read from the expression, which
  is a JSON document.)\<close>

definition get_var :: "runtime \<Rightarrow> pydict \<Rightarrow> pyval \<Rightarrow> pyval \<Rightarrow> pyerr + pyval" where
  "get_var rt data var_name dflt =
     (if \<not> truthy rt var_name then Inr (PDict data)
      else (case var_name of
              PStr s \<Rightarrow> Inr (get_var_loop rt (split_dot s) (PDict data) dflt)
            | _ \<Rightarrow> Inl AttributeError))"

text \<open>The loop of the \<open>missing\<close> operator.\<close>

fun missing_loop :: "runtime \<Rightarrow> pydict \<Rightarrow> pyval list \<Rightarrow> pyerr + pyval" where
  "missing_loop rt data [] = Inr (PBool False)"
| "missing_loop rt data (var_name # rest) =
     ebind (get_var rt data var_name PNone)
       (\<lambda>v. if v = PNone \<or> py_eq rt v (PStr []) then Inr (PBool True)
            else missing_loop rt data rest)"

text \<open>\<open>args[i]\<close>, handed to a continuation: \<open>IndexError\<close> when the list is too short.\<close>

definition at_index :: "pyval list \<Rightarrow> nat \<Rightarrow> (pyval \<Rightarrow> pyerr + 'a) \<Rightarrow> pyerr + 'a" where
  "at_index args i f = (if i < length args then f (args ! i) else Inl IndexError)"

lemma at_index_cong [fundef_cong]:
  "args = args' \<Longrightarrow> i = i' \<Longrightarrow> (\<And>e. e \<in> set args' \<Longrightarrow> f e = g e)
   \<Longrightarrow> at_index args i f = at_index args' i' g"
  by (simp add: at_index_def)

text \<open>\<open>if not isinstance(args, list): args = [args]\<close>.\<close>

fun args_of :: "pyval \<Rightarrow> pyval list" where
  "args_of (PList xs) = xs"
| "args_of a = [a]"

lemma size_list_mem:
  "x \<in> set xs \<Longrightarrow> size (x::pyval) < Suc (size_list size xs)"
  by (induction xs) auto

lemma size_args_of:
  "e \<in> set (args_of a) \<Longrightarrow> size e \<le> size a"
  by (cases a) (auto dest: size_list_mem)

text \<open>\<open>_evaluate(expression, data)\<close>.  The operator is the first key of the dictionary and
  \<open>args\<close> the value under it; anything that is not a dictionary evaluates to itself.  The
  recursion follows the nesting of the expression, which is taken to be less deep than the
  interpreter's stack.\<close>

function (sequential) evaluate :: "runtime \<Rightarrow> pyval \<Rightarrow> pydict \<Rightarrow> pyerr + pyval" where
  "evaluate rt (PDict []) data = Inl IndexError"
| "evaluate rt (PDict ((operator, a) # rest)) data =
     (let args = args_of a in
      if operator = ''and'' then
        py_all rt (map (\<lambda>arg. evaluate rt arg data) args)
      else if operator = ''or'' then
        py_any rt (map (\<lambda>arg. evaluate rt arg data) args)
      else if operator = ''not'' then
        ebind (at_index args 0 (\<lambda>e. evaluate rt e data)) (\<lambda>v. Inr (PBool (\<not> truthy rt v)))
      else if operator = ''=='' then
        ebind (at_index args 0 (\<lambda>e. evaluate rt e data)) (\<lambda>x.
        ebind (at_index args 1 (\<lambda>e. evaluate rt e data)) (\<lambda>y.
          Inr (PBool (py_eq rt x y))))
      else if operator = ''!='' then
        ebind (at_index args 0 (\<lambda>e. evaluate rt e data)) (\<lambda>x.
        ebind (at_index args 1 (\<lambda>e. evaluate rt e data)) (\<lambda>y.
          Inr (PBool (\<not> py_eq rt x y))))
      else if operator = ''<'' then
        ebind (at_index args 0 (\<lambda>e. evaluate rt e data)) (\<lambda>x.
        ebind (at_index args 1 (\<lambda>e. evaluate rt e data)) (\<lambda>y.
        ebind (py_cmp rt Lt x y) (\<lambda>b. Inr (PBool b))))
      else if operator = ''>'' then
        ebind (at_index args 0 (\<lambda>e. evaluate rt e data)) (\<lambda>x.
        ebind (at_index args 1 (\<lambda>e. evaluate rt e data)) (\<lambda>y.
        ebind (py_cmp rt Gt x y) (\<lambda>b. Inr (PBool b))))
      else if operator = ''<='' then
        ebind (at_index args 0 (\<lambda>e. evaluate rt e data)) (\<lambda>x.
        ebind (at_index args 1 (\<lambda>e. evaluate rt e data)) (\<lambda>y.
        ebind (py_cmp rt Le x y) (\<lambda>b. Inr (PBool b))))
      else if operator = ''>='' then
        ebind (at_index args 0 (\<lambda>e. evaluate rt e data)) (\<lambda>x.
        ebind (at_index args 1 (\<lambda>e. evaluate rt e data)) (\<lambda>y.
        ebind (py_cmp rt Ge x y) (\<lambda>b. Inr (PBool b))))
      else if operator = ''in'' then
        ebind (at_index args 0 (\<lambda>e. evaluate rt e data)) (\<lambda>v.
        ebind (at_index args 1 (\<lambda>e. evaluate rt e data)) (\<lambda>collection.
        ebind (py_in rt v collection) (\<lambda>b. Inr (PBool b))))
      else if operator = ''contains'' then
        ebind (at_index args 0 (\<lambda>e. evaluate rt e data)) (\<lambda>collection.
        ebind (at_index args 1 (\<lambda>e. evaluate rt e data)) (\<lambda>v.
        ebind (py_in rt v collection) (\<lambda>b. Inr (PBool b))))
      else if operator = ''var'' then
        at_index args 0 (\<lambda>var_name.
          get_var rt data var_name (if length args > 1 then args ! 1 else PNone))
      else if operator = ''if'' then
        ebind (at_index args 0 (\<lambda>e. evaluate rt e data)) (\<lambda>condition.
          if truthy rt condition then
            (if length args > 1 then at_index args 1 (\<lambda>e. evaluate rt e data)
             else Inr (PBool True))
          else
            (if length args > 2 then at_index args 2 (\<lambda>e. evaluate rt e data)
             else Inr (PBool False)))
      else if operator = ''missing'' then
        missing_loop rt data args
      else if operator = ''all'' then
        ebind (at_index args 0 (\<lambda>e. evaluate rt e data)) (\<lambda>array.
          at_index args 1 (\<lambda>condition_template.
            case array of
              PList items \<Rightarrow>
                py_all rt (map (\<lambda>item. evaluate rt condition_template
                                       (dict_set data ''_item'' item)) items)
            | _ \<Rightarrow> Inr (PBool False)))
      else if operator = ''some'' then
        ebind (at_index args 0 (\<lambda>e. evaluate rt e data)) (\<lambda>array.
          at_index args 1 (\<lambda>condition_template.
            case array of
              PList items \<Rightarrow>
                py_any rt (map (\<lambda>item. evaluate rt condition_template
                                       (dict_set data ''_item'' item)) items)
            | _ \<Rightarrow> Inr (PBool False)))
      else if operator = ''+'' then
        py_sum rt (PInt 0) (map (\<lambda>arg. evaluate rt arg data) args)
      else if operator = ''-'' then
        (if length args = 1 then
           ebind (at_index args 0 (\<lambda>e. evaluate rt e data)) (py_neg rt)
         else
           ebind (at_index args 0 (\<lambda>e. evaluate rt e data)) (\<lambda>x.
           ebind (at_index args 1 (\<lambda>e. evaluate rt e data)) (\<lambda>y. py_sub rt x y)))
      else if operator = ''*'' then
        py_prod rt (PInt 1) (map (\<lambda>arg. evaluate rt arg data) args)
      else if operator = ''/'' then
        ebind (at_index args 0 (\<lambda>e. evaluate rt e data)) (\<lambda>dividend.
        ebind (at_index args 1 (\<lambda>e. evaluate rt e data)) (\<lambda>divisor.
          if py_eq rt divisor (PInt 0) then Inr PNone
          else py_truediv rt dividend divisor))
      else Inr PNone)"
| "evaluate rt expression data = Inr expression"
  by pat_completeness auto
termination
proof (relation "measure (\<lambda>(rt, e, d). size e)")
qed (auto dest: size_args_of)

text \<open>What the snapshot holds at a path, followed segment by segment with no defaulting:
  \<open>None\<close> when a segment cannot be looked up at all.  It is the reference against which
  the defaulting of \<open>_get_var\<close> is stated.\<close>

fun path_value :: "runtime \<Rightarrow> string list \<Rightarrow> pyval \<Rightarrow> pyval option" where
  "path_value rt [] v = Some v"
| "path_value rt (part # parts) v =
     (case get_part rt v part of None \<Rightarrow> None | Some v' \<Rightarrow> path_value rt parts v')"

section \<open>Workflow models (models/definitions.py, models/instances.py)\<close>

text \<open>
  Primary keys are numbers.  A foreign key that the engine follows to read the related
  object (\<open>transition.to_state\<close>, \<open>request.transition\<close>, \<open>instance.content_object\<close>) holds
  that object; one that it only compares (\<open>from_state_id\<close>, \<open>workflow_id\<close>,
  \<open>auto_transition_to\<close>) holds the key.  A related manager (\<open>workflow.states\<close>,
  \<open>transition.approval_rules\<close>) is the list of related rows in the model's \<open>Meta.ordering\<close>.
  Points in time are seconds.
\<close>

datatype DefinitionStatus = Def_DRAFT | Def_ACTIVE | Def_DEPRECATED | Def_ARCHIVED

datatype InstanceStatus = Inst_ACTIVE | Inst_COMPLETED | Inst_CANCELLED | Inst_SUSPENDED

datatype RequestStatus =
  Req_PENDING | Req_APPROVED | Req_REJECTED | Req_ESCALATED | Req_EXPIRED | Req_CANCELLED

datatype ApprovalType = AT_SINGLE | AT_ALL | AT_ANY | AT_MAJORITY | AT_SEQUENTIAL

record WorkflowState =
  st_id :: nat
  st_workflow :: nat
  st_code :: string
  st_name :: string
  is_initial :: bool
  is_terminal :: bool
  auto_transition_enabled :: bool
  auto_transition_to :: "nat option"
  timeout_hours :: "nat option"
  timeout_action :: string

record WorkflowDefinition =
  wd_id :: nat
  wd_name :: string
  wd_status :: DefinitionStatus
  wd_modified_by :: "nat option"
  wd_states :: "WorkflowState list"

record ApprovalRule =
  ar_id :: nat
  approval_type :: ApprovalType
  min_approvals :: nat
  escalation_hours :: "nat option"

record WorkflowTransition =
  tr_id :: nat
  tr_workflow :: nat
  tr_code :: string
  tr_from_state :: nat
  tr_to_state :: WorkflowState
  required_permission :: string
  required_roles :: "string list"
  conditions :: pyval
  requires_approval :: bool
  approval_rules :: "ApprovalRule list"
  pre_actions :: "pyval list"
  post_actions :: "pyval list"
  tr_is_active :: bool

text \<open>A user (\<open>iam.User\<close>) with the result of \<open>get_all_permissions_set()\<close>.  The model has
  no attribute \<open>roles\<close>: the roles of a user are rows of \<open>UserRole\<close>, reached through
  \<open>user.user_roles\<close>.\<close>

record User =
  u_id :: nat
  email :: string
  u_permissions :: "string list"

record WorkflowInstance =
  wi_id :: nat
  wi_workflow :: nat
  wi_current_state :: WorkflowState
  wi_status :: InstanceStatus
  content_object :: PyRecord
  state_entered_at :: int
  state_deadline :: "int option"
  completed_at :: "int option"
  completed_by :: "nat option"

text \<open>The checksum that \<open>StateHistory.save\<close> derives from the other fields is not kept.\<close>

record StateHistory =
  sh_instance :: nat
  sh_from_state :: "nat option"
  sh_to_state :: nat
  sh_transition :: "nat option"
  sh_triggered_by :: nat
  sh_action :: string
  sh_notes :: string
  sh_time_in_state :: "int option"

record ApprovalRequest =
  rq_id :: nat
  rq_instance :: nat
  rq_transition :: WorkflowTransition
  rq_approval_rule :: ApprovalRule
  rq_status :: RequestStatus
  requested_by :: User
  request_notes :: string
  rq_deadline :: "int option"
  record_snapshot :: pydict

record ApprovalDecision =
  dc_request :: nat
  dc_decision :: string
  decided_by :: nat
  dc_comments :: string
  dc_signature :: "nat option"

text \<open>An entry of the audit trail: who, on which record, from which state code to
  which.\<close>

record AuditEntry =
  au_user :: nat
  au_object_id :: string
  au_old_state :: "string option"
  au_new_state :: string

text \<open>The tables the engine reads and writes.  \<open>next_id\<close> supplies the primary key of the
  next created approval request.\<close>

record db =
  transitions :: "WorkflowTransition list"
  users :: "User list"
  instances :: "WorkflowInstance list"
  state_history :: "StateHistory list"
  approval_requests :: "ApprovalRequest list"
  approval_decisions :: "ApprovalDecision list"
  audit_log :: "AuditEntry list"
  next_id :: nat

text \<open>\<open>queryset.first()\<close>.\<close>

fun first :: "'a list \<Rightarrow> 'a option" where
  "first [] = None"
| "first (x # xs) = Some x"

text \<open>\<open>obj.save()\<close> on an instance and on an approval request: the row with the same
  primary key is replaced, or the row is added.\<close>

fun save_instance :: "WorkflowInstance list \<Rightarrow> WorkflowInstance \<Rightarrow> WorkflowInstance list" where
  "save_instance [] inst = [inst]"
| "save_instance (i # is) inst =
     (if wi_id i = wi_id inst then inst # is else i # save_instance is inst)"

fun save_request :: "ApprovalRequest list \<Rightarrow> ApprovalRequest \<Rightarrow> ApprovalRequest list" where
  "save_request [] r = [r]"
| "save_request (q # qs) r =
     (if rq_id q = rq_id r then r # qs else q # save_request qs r)"

section \<open>Guards of a transition\<close>

text \<open>\<open>hasattr(record, name)\<close> and \<open>getattr(record, name)\<close>.\<close>

definition record_getattr :: "PyRecord \<Rightarrow> string \<Rightarrow> pyval option" where
  "record_getattr record name =
     (case map_of (rec_dict record) name of
        Some v \<Rightarrow> Some v
      | None \<Rightarrow> map_of (rec_class_attrs record) name)"

text \<open>\<open>_get_record_data(record)\<close>.\<close>

definition get_record_data :: "PyRecord \<Rightarrow> pydict" where
  "get_record_data record =
     (let data = (case rec_to_dict record of
                    Some d \<Rightarrow> d
                  | None \<Rightarrow> filter (\<lambda>(key, v). \<not> starts_with key ''_'') (rec_dict record));
          data = dict_set data ''_id'' (PStr (rec_pk record));
          data = (case record_getattr record ''status'' of
                    Some s \<Rightarrow> dict_set data ''_status'' s
                  | None \<Rightarrow> data);
          data = (case record_getattr record ''created_at'' of
                    Some c \<Rightarrow> dict_set data ''_created_at'' c
                  | None \<Rightarrow> data)
      in data)"

text \<open>\<open>evaluate_conditions(conditions, record)\<close>.\<close>

definition evaluate_conditions :: "runtime \<Rightarrow> pyval \<Rightarrow> PyRecord \<Rightarrow> pyerr + pyval" where
  "evaluate_conditions rt conds record =
     (if \<not> truthy rt conds then Inr (PBool True)
      else evaluate rt conds (get_record_data record))"

text \<open>\<open>WorkflowTransition.can_execute(user, record)\<close>.  With a non-empty \<open>required_roles\<close>
  the method reads \<open>user.roles\<close>, an attribute that \<open>iam.User\<close> does not have, and the
  lookup raises \<open>AttributeError\<close>.\<close>

definition can_execute ::
  "runtime \<Rightarrow> WorkflowTransition \<Rightarrow> User \<Rightarrow> PyRecord \<Rightarrow> pyerr + bool \<times> string option" where
  "can_execute rt transition user record =
     (if required_permission transition \<noteq> [] \<and>
         required_permission transition \<notin> set (u_permissions user)
      then Inr (False, Some ''Missing required permission'')
      else if required_roles transition \<noteq> []
      then Inl AttributeError
      else if truthy rt (conditions transition) then
        ebind (evaluate_conditions rt (conditions transition) record)
          (\<lambda>v. if \<not> truthy rt v then Inr (False, Some ''Conditions not met'')
               else Inr (True, None))
      else Inr (True, None))"

section \<open>The workflow engine (engine/state_machine.py)\<close>

text \<open>The engine object: \<open>self.instance\<close> (the field \<open>eng_instance\<close>), the key of \<open>self.workflow\<close> and
  \<open>self.current_state\<close>.\<close>

record engine =
  eng_instance :: WorkflowInstance
  workflow :: nat
  current_state :: WorkflowState

definition engine_init :: "WorkflowInstance \<Rightarrow> engine" where
  "engine_init inst =
     \<lparr>eng_instance = inst, workflow = wi_workflow inst, current_state = wi_current_state inst\<rparr>"

text \<open>\<open>can_execute_transition(transition, user)\<close>.  It returns a verdict and nothing else:
  neither the engine nor any table is written.\<close>

definition can_execute_transition ::
  "runtime \<Rightarrow> engine \<Rightarrow> WorkflowTransition \<Rightarrow> User \<Rightarrow> pyerr + bool \<times> string option" where
  "can_execute_transition rt eng transition user =
     (if tr_from_state transition \<noteq> st_id (current_state eng)
      then Inr (False, Some ''Transition not available from current state'')
      else if tr_workflow transition \<noteq> workflow eng
      then Inr (False, Some ''Transition not part of this workflow'')
      else can_execute rt transition user (content_object (eng_instance eng)))"

text \<open>\<open>action.get(key)\<close> on an entry of \<open>pre_actions\<close>/\<open>post_actions\<close>: only a dictionary
  has \<open>get\<close>.\<close>

definition action_get :: "pyval \<Rightarrow> string \<Rightarrow> pyerr + pyval" where
  "action_get action key =
     (case action of
        PDict d \<Rightarrow> Inr (case map_of d key of None \<Rightarrow> PNone | Some v \<Rightarrow> v)
      | _ \<Rightarrow> Inl AttributeError)"

text \<open>\<open>_update_field(action, record)\<close>: when the field name is truthy and the record has an
  attribute of that name, the attribute is set and the record saved; a truthy field name
  that is not a string is refused by \<open>hasattr\<close>.\<close>

definition update_field :: "runtime \<Rightarrow> pyval \<Rightarrow> PyRecord \<Rightarrow> pyerr + PyRecord" where
  "update_field rt action record =
     ebind (action_get action ''field'') (\<lambda>field_name.
     ebind (action_get action ''value'') (\<lambda>v.
       if \<not> truthy rt field_name then Inr record
       else (case field_name of
               PStr f \<Rightarrow>
                 if record_getattr record f \<noteq> None
                 then setattr_save rt record f v
                 else Inr record
             | _ \<Rightarrow> Inl TypeError)))"

text \<open>\<open>_execute_actions(actions, record, user)\<close>; sending a notification and calling a
  webhook are placeholders that do nothing.\<close>

fun execute_actions :: "runtime \<Rightarrow> pyval list \<Rightarrow> PyRecord \<Rightarrow> User \<Rightarrow> pyerr + PyRecord" where
  "execute_actions rt [] record user = Inr record"
| "execute_actions rt (action # actions) record user =
     ebind (action_get action ''type'') (\<lambda>action_type.
       if py_eq rt action_type (PStr ''notification'') then execute_actions rt actions record user
       else if py_eq rt action_type (PStr ''update_field'') then
         ebind (update_field rt action record) (\<lambda>record'. execute_actions rt actions record' user)
       else if py_eq rt action_type (PStr ''webhook'') then execute_actions rt actions record user
       else execute_actions rt actions record user)"

text \<open>\<open>_create_approval_request(transition, user, notes)\<close>.\<close>

definition create_approval_request ::
  "runtime \<Rightarrow> engine \<Rightarrow> db \<Rightarrow> WorkflowTransition \<Rightarrow> User \<Rightarrow> string
   \<Rightarrow> pyerr + ApprovalRequest \<times> db" where
  "create_approval_request rt eng d transition user notes =
     (case first (approval_rules transition) of
        None \<Rightarrow> Inl ValueError
      | Some approval_rule \<Rightarrow>
        (let deadline = (case escalation_hours approval_rule of
                           None \<Rightarrow> None
                         | Some h \<Rightarrow> if h \<noteq> 0 then Some (now rt + 3600 * int h) else None);
             record = content_object (eng_instance eng);
             snapshot = (case rec_to_dict record of
                           Some dct \<Rightarrow> dct
                         | None \<Rightarrow>
                             map (\<lambda>(key, v). (key, PStr (py_str rt v)))
                               (filter (\<lambda>(key, v). \<not> starts_with key ''_'') (rec_dict record)));
             request = \<lparr>rq_id = next_id d,
                        rq_instance = wi_id (eng_instance eng),
                        rq_transition = transition,
                        rq_approval_rule = approval_rule,
                        rq_status = Req_PENDING,
                        requested_by = user,
                        request_notes = notes,
                        rq_deadline = deadline,
                        record_snapshot = snapshot\<rparr>
         in Inr (request,
                 d\<lparr>approval_requests := approval_requests d @ [request],
                   next_id := Suc (next_id d)\<rparr>)))"

text \<open>The result of \<open>execute_transition\<close>, \<open>(success, message, approval_request)\<close>, with the
  engine and the tables as the call leaves them.  A raised exception is \<open>Inl\<close>: the
  enclosing \<open>transaction.atomic\<close> rolls the tables back, so nothing but the exception is
  returned.\<close>

type_synonym outcome = "(bool \<times> string option \<times> ApprovalRequest option) \<times> engine \<times> db"

text \<open>Lines 165 to 221 of \<open>execute_transition\<close>, the state change itself: the time spent in
  the state, the pre-actions, the history entry, the update of the instance (state, entry
  time, deadline, completion), \<open>instance.save()\<close>, the post-actions and the audit entry.
  It returns the new state with the engine and the tables.\<close>

definition perform_transition ::
  "runtime \<Rightarrow> engine \<Rightarrow> db \<Rightarrow> WorkflowTransition \<Rightarrow> User \<Rightarrow> string
   \<Rightarrow> pyerr + WorkflowState \<times> engine \<times> db" where
  "perform_transition rt eng d transition user notes =
     (let record = content_object (eng_instance eng);
          time_in_state = now rt - state_entered_at (eng_instance eng)
      in ebind (execute_actions rt (pre_actions transition) record user) (\<lambda>record.
        let previous_state = current_state eng;
            new_state = tr_to_state transition;
            d = d\<lparr>state_history := state_history d @
                   [\<lparr>sh_instance = wi_id (eng_instance eng),
                     sh_from_state = Some (st_id previous_state),
                     sh_to_state = st_id new_state,
                     sh_transition = Some (tr_id transition),
                     sh_triggered_by = u_id user,
                     sh_action = tr_code transition,
                     sh_notes = notes,
                     sh_time_in_state = Some time_in_state\<rparr>]\<rparr>;
            inst = (eng_instance eng)
                     \<lparr>content_object := record,
                      wi_current_state := new_state,
                      state_entered_at := now rt,
                      state_deadline :=
                        (case timeout_hours new_state of
                           None \<Rightarrow> None
                         | Some h \<Rightarrow> if h \<noteq> 0 then Some (now rt + 3600 * int h) else None)\<rparr>;
            inst = (if is_terminal new_state
                    then inst\<lparr>wi_status := Inst_COMPLETED,
                              completed_at := Some (now rt),
                              completed_by := Some (u_id user)\<rparr>
                    else inst);
            d = d\<lparr>instances := save_instance (instances d) inst\<rparr>;
            eng = eng\<lparr>eng_instance := inst, current_state := new_state\<rparr>
        in ebind (execute_actions rt (post_actions transition) record user) (\<lambda>record.
          let inst = inst\<lparr>content_object := record\<rparr>;
              eng = eng\<lparr>eng_instance := inst\<rparr>;
              d = d\<lparr>instances := save_instance (instances d) inst,
                    audit_log := audit_log d @
                      [\<lparr>au_user = u_id user,
                        au_object_id = rec_pk record,
                        au_old_state = Some (st_code previous_state),
                        au_new_state = st_code new_state\<rparr>]\<rparr>
          in Inr (new_state, eng, d))))"

text \<open>The query of \<open>_check_auto_transition\<close>: the first active transition of the workflow
  from \<open>state\<close> to its auto-transition target.\<close>

definition auto_transition_of :: "engine \<Rightarrow> db \<Rightarrow> WorkflowState \<Rightarrow> WorkflowTransition option" where
  "auto_transition_of eng d state =
     first (filter (\<lambda>t. tr_workflow t = workflow eng
                        \<and> tr_from_state t = st_id state
                        \<and> Some (st_id (tr_to_state t)) = auto_transition_to state
                        \<and> tr_is_active t) (transitions d))"

text \<open>
  \<open>execute_transition(transition, user, notes, skip_approval)\<close>.  After the state change,
  when the new state has auto-transition enabled and a target, the body of
  \<open>_check_auto_transition\<close> follows in place (the two methods call each other): it looks
  up the transition to the target and, when its guards pass, executes it with
  \<open>skip_approval=True\<close> and drops its result.  The engine keeps no count of these nested
  calls and no set of the states it has entered; what ends a chain that does not end by
  itself is the interpreter: a nested call for which the stack has no room raises
  \<open>RecursionError\<close>, which no method catches, so it leaves every enclosing call and the
  tables are rolled back.
\<close>

partial_function (option) execute_transition ::
  "runtime \<Rightarrow> engine \<Rightarrow> db \<Rightarrow> WorkflowTransition \<Rightarrow> User \<Rightarrow> string \<Rightarrow> bool
   \<Rightarrow> (pyerr + outcome) option" where
  "execute_transition rt eng d transition user notes skip_approval =
     (case can_execute_transition rt eng transition user of
        Inl err \<Rightarrow> Some (Inl err)
      | Inr (can, reason) \<Rightarrow>
        if \<not> can then Some (Inr ((False, reason, None), eng, d))
        else if requires_approval transition \<and> \<not> skip_approval then
          (case create_approval_request rt eng d transition user notes of
             Inl err \<Rightarrow> Some (Inl err)
           | Inr (approval_request, d') \<Rightarrow>
               Some (Inr ((True, Some ''Approval request created'', Some approval_request),
                          eng, d')))
        else
          (case perform_transition rt eng d transition user notes of
             Inl err \<Rightarrow> Some (Inl err)
           | Inr (new_state, eng', d') \<Rightarrow>
             (let done = Some (Inr ((True, Some (''Transitioned to '' @ st_name new_state), None),
                                    eng', d'))
              in if auto_transition_enabled new_state \<and> auto_transition_to new_state \<noteq> None
                 then
                   (let state = current_state eng'
                    in if \<not> auto_transition_enabled state \<or> auto_transition_to state = None
                       then done
                       else
                         (case auto_transition_of eng' d' state of
                            None \<Rightarrow> done
                          | Some auto \<Rightarrow>
                            (case can_execute_transition rt eng' auto user of
                               Inl err \<Rightarrow> Some (Inl err)
                             | Inr (can, reason) \<Rightarrow>
                               if can then
                                 (if stack_room rt = 0 then Some (Inl RecursionError)
                                  else
                                    Option.bind
                                      (execute_transition (rt\<lparr>stack_room := stack_room rt - 1\<rparr>)
                                         eng' d' auto user ''Auto-transition'' True)
                                      (\<lambda>r. case r of
                                             Inl err \<Rightarrow> Some (Inl err)
                                           | Inr (res, eng'', d'') \<Rightarrow>
                                               Some (Inr ((True,
                                                           Some (''Transitioned to '' @
                                                                 st_name new_state),
                                                           None), eng'', d''))))
                               else done)))
                 else done)))"

text \<open>\<open>_check_auto_transition(user)\<close> on its own.\<close>

definition check_auto_transition ::
  "runtime \<Rightarrow> engine \<Rightarrow> db \<Rightarrow> User \<Rightarrow> (pyerr + engine \<times> db) option" where
  "check_auto_transition rt eng d user =
     (let state = current_state eng
      in if \<not> auto_transition_enabled state \<or> auto_transition_to state = None
         then Some (Inr (eng, d))
         else
           (case auto_transition_of eng d state of
              None \<Rightarrow> Some (Inr (eng, d))
            | Some transition \<Rightarrow>
              (case can_execute_transition rt eng transition user of
                 Inl err \<Rightarrow> Some (Inl err)
               | Inr (can, reason) \<Rightarrow>
                 if can then
                   (if stack_room rt = 0 then Some (Inl RecursionError)
                    else
                      Option.bind
                        (execute_transition (rt\<lparr>stack_room := stack_room rt - 1\<rparr>)
                           eng d transition user ''Auto-transition'' True)
                        (\<lambda>r. case r of
                               Inl err \<Rightarrow> Some (Inl err)
                             | Inr (res, eng', d') \<Rightarrow> Some (Inr (eng', d'))))
                 else Some (Inr (eng, d)))))"

text \<open>\<open>process_approval(request, user, decision, comments, signature)\<close>.  The result is
  \<open>(success, message)\<close> with the request, the engine and the tables as the call leaves
  them.\<close>

definition process_approval ::
  "runtime \<Rightarrow> engine \<Rightarrow> db \<Rightarrow> ApprovalRequest \<Rightarrow> User \<Rightarrow> string \<Rightarrow> string \<Rightarrow> nat option
   \<Rightarrow> (pyerr + (bool \<times> string option) \<times> ApprovalRequest \<times> engine \<times> db) option" where
  "process_approval rt eng d request user decision comments signature =
     (if rq_status request \<noteq> Req_PENDING
      then Some (Inr ((False, Some ''Approval request is not pending''), request, eng, d))
      else
        (let d = d\<lparr>approval_decisions := approval_decisions d @
                     [\<lparr>dc_request = rq_id request,
                       dc_decision = decision,
                       decided_by = u_id user,
                       dc_comments = comments,
                       dc_signature = signature\<rparr>]\<rparr>;
             rule = rq_approval_rule request;
             decisions = filter (\<lambda>x. dc_request x = rq_id request) (approval_decisions d);
             approved_count = length (filter (\<lambda>x. dc_decision x = ''approved'') decisions);
             rejected_count = length (filter (\<lambda>x. dc_decision x = ''rejected'') decisions);
             approve = (\<lambda>notes.
               let request = request\<lparr>rq_status := Req_APPROVED\<rparr>;
                   d = d\<lparr>approval_requests := save_request (approval_requests d) request\<rparr>
               in Option.bind
                    (execute_transition rt eng d (rq_transition request) (requested_by request)
                       notes True)
                    (\<lambda>r. case r of
                           Inl err \<Rightarrow> Some (Inl err)
                         | Inr ((success, message, approval_request), eng', d') \<Rightarrow>
                             Some (Inr ((success, message), request, eng', d'))));
             waiting = Some (Inr ((True, Some ''Decision recorded, waiting for more approvals''),
                                  request, eng, d))
         in if rejected_count > 0 then
              (let request = request\<lparr>rq_status := Req_REJECTED\<rparr>;
                   d = d\<lparr>approval_requests := save_request (approval_requests d) request\<rparr>
               in Some (Inr ((True, Some ''Approval request rejected''), request, eng, d)))
            else if approval_type rule = AT_SINGLE then
              (if approved_count \<ge> 1 then approve (''Approved by '' @ email user)
               else waiting)
            else if approval_type rule = AT_ALL then
              (if approved_count \<ge> min_approvals rule
               then approve ''Approved by multiple approvers''
               else waiting)
            else if approval_type rule = AT_ANY then
              (if approved_count \<ge> 1 then approve (''Approved by '' @ email user)
               else waiting)
            else waiting))"

text \<open>\<open>_handle_timeout()\<close>.  \<open>code__contains='timeout'\<close> is the case-sensitive substring
  test on the transition's code.\<close>

definition timeout_transition_of :: "engine \<Rightarrow> db \<Rightarrow> WorkflowState \<Rightarrow> WorkflowTransition option" where
  "timeout_transition_of eng d state =
     first (filter (\<lambda>t. tr_workflow t = workflow eng
                        \<and> tr_from_state t = st_id state
                        \<and> str_contains (tr_code t) ''timeout''
                        \<and> tr_is_active t) (transitions d))"

definition handle_timeout :: "runtime \<Rightarrow> engine \<Rightarrow> db \<Rightarrow> (pyerr + engine \<times> db) option" where
  "handle_timeout rt eng d =
     (let state = current_state eng;
          action = timeout_action state
      in if action = ''escalate'' then
           Some (Inr (eng,
             d\<lparr>approval_requests :=
                 map (\<lambda>request.
                        if rq_instance request = wi_id (eng_instance eng)
                           \<and> rq_status request = Req_PENDING
                        then request\<lparr>rq_status := Req_ESCALATED\<rparr> else request)
                     (approval_requests d)\<rparr>))
         else if action = ''notify'' then Some (Inr (eng, d))
         else if action = ''transition'' then
           (case timeout_transition_of eng d state of
              None \<Rightarrow> Some (Inr (eng, d))
            | Some timeout_transition \<Rightarrow>
              (case first (filter (\<lambda>u. email u = ''system@ebr.local'') (users d)) of
                 None \<Rightarrow> Some (Inr (eng, d))
               | Some system_user \<Rightarrow>
                   Option.bind
                     (execute_transition rt eng d timeout_transition system_user
                        ''Auto-transition due to timeout'' True)
                     (\<lambda>r. case r of
                            Inl err \<Rightarrow> Some (Inl err)
                          | Inr (res, eng', d') \<Rightarrow> Some (Inr (eng', d')))))
         else Some (Inr (eng, d)))"

text \<open>\<open>check_timed_out_states()\<close>: the active instances whose deadline has passed are
  handled one after the other, each by an engine of its own.  An exception ends the
  sweep; what earlier instances wrote stays written.\<close>

fun timed_out_loop ::
  "runtime \<Rightarrow> db \<Rightarrow> WorkflowInstance list \<Rightarrow> WorkflowInstance list
   \<Rightarrow> ((pyerr + WorkflowInstance list) \<times> db) option" where
  "timed_out_loop rt d [] processed = Some (Inr processed, d)"
| "timed_out_loop rt d (inst # rest) processed =
     Option.bind (handle_timeout rt (engine_init inst) d)
       (\<lambda>r. case r of
              Inl err \<Rightarrow> Some (Inl err, d)
            | Inr (eng, d') \<Rightarrow> timed_out_loop rt d' rest (processed @ [eng_instance eng]))"

definition check_timed_out_states ::
  "runtime \<Rightarrow> db \<Rightarrow> ((pyerr + WorkflowInstance list) \<times> db) option" where
  "check_timed_out_states rt d =
     timed_out_loop rt d
       (filter (\<lambda>i. wi_status i = Inst_ACTIVE
                    \<and> (case state_deadline i of None \<Rightarrow> False | Some dl \<Rightarrow> dl < now rt))
               (instances d))
       []"

section \<open>Activation of a definition (views/definitions.py)\<close>

text \<open>An HTTP response: the status code and the message or error text.\<close>

datatype response = Response nat string

text \<open>\<open>WorkflowDefinitionViewSet.activate\<close>, after \<open>get_object()\<close> has found the workflow.\<close>

definition activate :: "WorkflowDefinition \<Rightarrow> User \<Rightarrow> response \<times> WorkflowDefinition" where
  "activate wdef user =
     (if wd_status wdef \<noteq> Def_DRAFT
      then (Response 400 ''Only draft workflows can be activated.'', wdef)
      else if \<not> list_ex is_initial (wd_states wdef)
      then (Response 400 ''Workflow must have an initial state.'', wdef)
      else if \<not> list_ex is_terminal (wd_states wdef)
      then (Response 400 ''Workflow must have at least one terminal state.'', wdef)
      else (Response 200 (''Workflow '' @ wd_name wdef @ '' activated.''),
            wdef\<lparr>wd_status := Def_ACTIVE, wd_modified_by := Some (u_id user)\<rparr>))"

section \<open>Example configurations\<close>

text \<open>Small workflows on which the properties below are evaluated: a state, a transition
  without guards, a user, a record, an instance with its engine, and the tables.\<close>

definition mk_state :: "nat \<Rightarrow> string \<Rightarrow> bool \<Rightarrow> bool \<Rightarrow> nat option \<Rightarrow> WorkflowState" where
  "mk_state i cd initial terminal auto_to =
     \<lparr>st_id = i, st_workflow = 1, st_code = cd, st_name = cd,
      is_initial = initial, is_terminal = terminal,
      auto_transition_enabled = (auto_to \<noteq> None), auto_transition_to = auto_to,
      timeout_hours = None, timeout_action = []\<rparr>"

definition mk_transition :: "nat \<Rightarrow> string \<Rightarrow> nat \<Rightarrow> WorkflowState \<Rightarrow> WorkflowTransition" where
  "mk_transition i cd from_id target =
     \<lparr>tr_id = i, tr_workflow = 1, tr_code = cd, tr_from_state = from_id, tr_to_state = target,
      required_permission = [], required_roles = [], conditions = PNone,
      requires_approval = False, approval_rules = [], pre_actions = [], post_actions = [],
      tr_is_active = True\<rparr>"

definition ex_user :: User where
  "ex_user = \<lparr>u_id = 1, email = ''qa@ebr.local'', u_permissions = [''batch.release'']\<rparr>"

text \<open>An interpreter whose objects are plain (no attributes, truthy, equal to themselves
  only, unordered, no arithmetic, no membership), with room for 300 nested transitions;
  the float results are not rounded and saving a field stores the value.\<close>

fun rat_arith :: "arith \<Rightarrow> rat \<Rightarrow> rat \<Rightarrow> rat" where
  "rat_arith OpAdd x y = x + y"
| "rat_arith OpSub x y = x - y"
| "rat_arith OpMul x y = x * y"
| "rat_arith OpDiv x y = x / y"

definition ex_rt :: runtime where
  "ex_rt = \<lparr>py_getattr = (\<lambda>v a. None), py_str = (\<lambda>v. []),
            obj_truthy = (\<lambda>n. True), obj_eq = (\<lambda>a b. a = b),
            obj_cmp = (\<lambda>opr a b. Inl TypeError), obj_arith = (\<lambda>opr a b. Inl TypeError),
            obj_neg = (\<lambda>n. Inl TypeError), obj_in = (\<lambda>v c. Inl TypeError),
            float_arith = (\<lambda>opr x y. Inr (PFloat (rat_arith opr (num_val x) (num_val y)))),
            setattr_save = (\<lambda>record name v.
              Inr (record\<lparr>rec_dict := dict_set (rec_dict record) name v\<rparr>)),
            now = 7200, stack_room = 300\<rparr>"

definition ex_record :: PyRecord where
  "ex_record = \<lparr>rec_pk = ''42'', rec_to_dict = None,
                rec_dict = [(''status'', PStr ''in_progress'')], rec_class_attrs = []\<rparr>"

definition ex_instance :: "WorkflowState \<Rightarrow> WorkflowInstance" where
  "ex_instance s =
     \<lparr>wi_id = 1, wi_workflow = 1, wi_current_state = s, wi_status = Inst_ACTIVE,
      content_object = ex_record, state_entered_at = 0, state_deadline = None,
      completed_at = None, completed_by = None\<rparr>"

definition ex_db :: "WorkflowTransition list \<Rightarrow> WorkflowState \<Rightarrow> db" where
  "ex_db ts s =
     \<lparr>transitions = ts, users = [ex_user], instances = [ex_instance s], state_history = [],
      approval_requests = [], approval_decisions = [], audit_log = [], next_id = 1\<rparr>"

definition ex_engine :: "WorkflowState \<Rightarrow> engine" where
  "ex_engine s = engine_init (ex_instance s)"

definition ex_system_user :: User where
  "ex_system_user = \<lparr>u_id = 2, email = ''system@ebr.local'', u_permissions = []\<rparr>"

text \<open>An approval rule, a pending request for a transition, and a recorded decision.\<close>

definition ex_rule :: "ApprovalType \<Rightarrow> nat \<Rightarrow> ApprovalRule" where
  "ex_rule policy n =
     \<lparr>ar_id = 1, approval_type = policy, min_approvals = n, escalation_hours = None\<rparr>"

definition ex_request :: "ApprovalType \<Rightarrow> nat \<Rightarrow> WorkflowTransition \<Rightarrow> ApprovalRequest" where
  "ex_request policy n t =
     \<lparr>rq_id = 1, rq_instance = 1, rq_transition = t, rq_approval_rule = ex_rule policy n,
      rq_status = Req_PENDING, requested_by = ex_user, request_notes = [],
      rq_deadline = None, record_snapshot = []\<rparr>"


text \<open>A transition from \<open>draft\<close> to \<open>review\<close> that requires approval.\<close>

definition st_draft :: WorkflowState where "st_draft = mk_state 1 ''draft'' True False None"
definition st_review :: WorkflowState where "st_review = mk_state 2 ''review'' False False None"
definition tr_submit :: WorkflowTransition where
  "tr_submit = (mk_transition 1 ''submit'' 1 st_review)\<lparr>requires_approval := True\<rparr>"

text \<open>Two states that auto-transition to each other, and a chain \<open>a\<close>, \<open>b\<close>, \<open>c\<close> that
  ends in the terminal state \<open>c\<close>.\<close>

definition st_a :: WorkflowState where "st_a = mk_state 1 ''a'' True False (Some 2)"

definition st_c :: WorkflowState where "st_c = mk_state 3 ''c'' False True None"
definition tr_bc :: WorkflowTransition where "tr_bc = mk_transition 3 ''b_to_c'' 2 st_c"
definition st_b3 :: WorkflowState where "st_b3 = mk_state 2 ''b'' False False (Some 3)"
definition tr_ab3 :: WorkflowTransition where "tr_ab3 = mk_transition 1 ''a_to_b'' 1 st_b3"


text \<open>A state whose timeout action is \<open>transition\<close>, with one outgoing transition whose
  code is a parameter, and a system user in the user table.\<close>

definition st_waiting :: WorkflowState where
  "st_waiting = (mk_state 1 ''waiting'' True False None)
                  \<lparr>timeout_hours := Some 1, timeout_action := ''transition''\<rparr>"
definition st_expired :: WorkflowState where
  "st_expired = mk_state 2 ''expired'' False True None"
definition tr_expire :: "string \<Rightarrow> WorkflowTransition" where
  "tr_expire cd = mk_transition 1 cd 1 st_expired"
definition ex_timeout_db :: "string \<Rightarrow> db" where
  "ex_timeout_db cd = (ex_db [tr_expire cd] st_waiting)\<lparr>users := [ex_user, ex_system_user]\<rparr>"

text \<open>The same state with two outgoing transitions, to \<open>expired\<close> and to \<open>cancelled\<close>, in
  the order of the table.\<close>

definition st_cancelled :: WorkflowState where
  "st_cancelled = mk_state 3 ''cancelled'' False True None"
definition tr_cancel :: "string \<Rightarrow> WorkflowTransition" where
  "tr_cancel cd = mk_transition 2 cd 1 st_cancelled"
definition ex_timeout_db2 :: "string \<Rightarrow> string \<Rightarrow> db" where
  "ex_timeout_db2 c1 c2 =
     (ex_db [tr_expire c1, tr_cancel c2] st_waiting)\<lparr>users := [ex_user, ex_system_user]\<rparr>"

text \<open>The decisions recorded for a request, by verdict.\<close>

definition approved_count :: "db \<Rightarrow> ApprovalRequest \<Rightarrow> nat" where
  "approved_count d request =
     length (filter (\<lambda>x. dc_request x = rq_id request \<and> dc_decision x = ''approved'')
               (approval_decisions d))"

definition rejected_count :: "db \<Rightarrow> ApprovalRequest \<Rightarrow> nat" where
  "rejected_count d request =
     length (filter (\<lambda>x. dc_request x = rq_id request \<and> dc_decision x = ''rejected'')
               (approval_decisions d))"

section \<open>Properties of the condition evaluator\<close>

subsection \<open>Arithmetic operators\<close>











text \<open>The values that \<open>==\<close> holds equal to 0: \<open>0\<close>, \<open>0.0\<close>, \<open>False\<close>, and an object that
  says so.\<close>

lemma py_eq_zero:
  "py_eq rt v (PInt 0) \<longleftrightarrow>
     v \<in> {PInt 0, PFloat 0, PBool False} \<or> (is_obj v \<and> obj_eq rt v (PInt 0))"
  by (cases v) auto

text \<open>
  Claim C6 as stated fails: the dividend is evaluated before the divisor is looked at.  In
  \<open>{"/": [{"+": [null, 1]}, 0]}\<close> the divisor is 0 and the node raises \<open>TypeError\<close>, the
  exception of its dividend.
\<close>

theorem division_by_zero_dividend_raises_counterexample:
  "evaluate ex_rt (PDict [(''/'', PList [PDict [(''+'', PList [PNone, PInt 1])], PInt 0])]) []
     = Inl TypeError"
  by (simp add: at_index_def py_add_def)

text \<open>
  Claim C6, as the code has it.  A division node whose divisor evaluates to a value equal
  to 0 (\<open>0\<close>, \<open>0.0\<close>, \<open>False\<close>, or an object that compares equal to 0) returns null when
  its dividend evaluates, whatever the dividend is, and raises the exception of the
  dividend when the dividend raises.
\<close>

theorem division_by_zero_returns_null:
  assumes "args_of a = dividend_e # divisor_e # others"
    and "evaluate rt divisor_e data = Inr divisor"
    and "divisor \<in> {PInt 0, PFloat 0, PBool False} \<or> (is_obj divisor \<and> obj_eq rt divisor (PInt 0))"
  shows "evaluate rt (PDict ((''/'', a) # rest)) data =
           (case evaluate rt dividend_e data of Inl err \<Rightarrow> Inl err | Inr dividend \<Rightarrow> Inr PNone)"
  using assms py_eq_zero [of rt divisor]
  by (cases "evaluate rt dividend_e data") (simp_all add: at_index_def)

text \<open>\<open>Evaluate({"/": [10, 0]}, {}) == null\<close>.\<close>

theorem division_by_zero_returns_null_witness:
  "evaluate ex_rt (PDict [(''/'', PList [PInt 10, PInt 0])]) [] = Inr PNone"
  using division_by_zero_returns_null [of "PList [PInt 10, PInt 0]" "PInt 10" "PInt 0" "[]"
      ex_rt "[]" "PInt 0" "[]"]
  by simp

subsection \<open>Variable lookup\<close>

lemma get_var_loop_null:
  "n < length parts \<Longrightarrow> path_value ga (take (Suc n) parts) v = Some PNone
   \<Longrightarrow> get_var_loop ga parts v dflt = dflt"
proof (induction parts arbitrary: v n)
  case Nil
  then show ?case by simp
next
  case (Cons part parts)
  show ?case
  proof (cases "get_part ga v part")
    case None
    then show ?thesis by simp
  next
    case (Some v')
    show ?thesis
    proof (cases n)
      case 0
      with Cons.prems Some show ?thesis by simp
    next
      case (Suc m)
      with Cons.prems Some have "m < length parts" "path_value ga (take (Suc m) parts) v' = Some PNone"
        by simp_all
      then have "get_var_loop ga parts v' dflt = dflt" by (rule Cons.IH)
      with Some show ?thesis by simp
    qed
  qed
qed

text \<open>
  Claim C10.  For a non-empty dotted name, as soon as the value reached after some segment
  of the path, intermediate or final, is null (a key that is absent, or present with the
  value null), \<open>_get_var\<close> returns the default: a null stored in the snapshot is never
  returned as itself, and a non-null default masks it.
\<close>

theorem get_var_null_yields_default:
  assumes "s \<noteq> []"
    and "n < length (split_dot s)"
    and "path_value ga (take (Suc n) (split_dot s)) (PDict data) = Some PNone"
  shows "get_var ga data (PStr s) dflt = Inr dflt"
  using assms by (simp add: get_var_def get_var_loop_null)

text \<open>With default 7: \<open>a.b\<close> over \<open>{"a": {"b": null}}\<close> and over \<open>{"a": null}\<close>.\<close>

theorem get_var_null_yields_default_witness:
  "get_var ex_rt [(''a'', PDict [(''b'', PNone)])] (PStr ''a.b'') (PInt 7) = Inr (PInt 7)
   \<and> get_var ex_rt [(''a'', PNone)] (PStr ''a.b'') (PInt 7) = Inr (PInt 7)"
proof -
  have 1: "path_value ex_rt (take (Suc 1) (split_dot ''a.b'')) (PDict [(''a'', PDict [(''b'', PNone)])]) = Some PNone"
    by (simp add: get_part_def)
  have 2: "path_value ex_rt (take (Suc 0) (split_dot ''a.b'')) (PDict [(''a'', PNone)]) = Some PNone"
    by (simp add: get_part_def)
  show ?thesis
    using get_var_null_yields_default [OF _ _ 1, of "PInt 7"]
      get_var_null_yields_default [OF _ _ 2, of "PInt 7"]
    by simp
qed

section \<open>Properties of the workflow catalog\<close>

text \<open>
  Claim C2 as stated fails: a draft with two states flagged initial and one flagged
  terminal is activated.  The view tests \<open>exists()\<close> on the initial states, not their
  number.
\<close>

theorem activate_two_initial_counterexample:
  "activate \<lparr>wd_id = 1, wd_name = ''release'', wd_status = Def_DRAFT, wd_modified_by = None,
             wd_states = [mk_state 1 ''draft'' True False None,
                          mk_state 2 ''intake'' True False None,
                          mk_state 3 ''done'' False True None]\<rparr> ex_user
   = (Response 200 ''Workflow release activated.'',
      \<lparr>wd_id = 1, wd_name = ''release'', wd_status = Def_ACTIVE, wd_modified_by = Some 1,
       wd_states = [mk_state 1 ''draft'' True False None,
                    mk_state 2 ''intake'' True False None,
                    mk_state 3 ''done'' False True None]\<rparr>)"
  by (simp add: activate_def mk_state_def ex_user_def)

text \<open>
  Claim C2, as the code has it.  Activation succeeds, and sets the status to active,
  exactly when the definition is a draft with at least one state flagged initial and at
  least one flagged terminal; otherwise the response is a 400 and the definition is
  unchanged.
\<close>

theorem activate_needs_initial_and_terminal:
  "(wd_status wdef = Def_DRAFT
      \<and> (\<exists>s \<in> set (wd_states wdef). is_initial s)
      \<and> (\<exists>s \<in> set (wd_states wdef). is_terminal s)
    \<longrightarrow> activate wdef user =
          (Response 200 (''Workflow '' @ wd_name wdef @ '' activated.''),
           wdef\<lparr>wd_status := Def_ACTIVE, wd_modified_by := Some (u_id user)\<rparr>))
   \<and> (wd_status wdef \<noteq> Def_DRAFT
      \<or> (\<forall>s \<in> set (wd_states wdef). \<not> is_initial s)
      \<or> (\<forall>s \<in> set (wd_states wdef). \<not> is_terminal s)
    \<longrightarrow> (\<exists>msg. fst (activate wdef user) = Response 400 msg)
        \<and> snd (activate wdef user) = wdef)"
  by (auto simp add: activate_def list_ex_iff)

text \<open>A draft with one initial and one terminal state is activated; a draft without a
  terminal state is left as it is.\<close>

theorem activate_needs_initial_and_terminal_witness:
  "fst (activate \<lparr>wd_id = 1, wd_name = ''release'', wd_status = Def_DRAFT, wd_modified_by = None,
             wd_states = [mk_state 1 ''draft'' True False None,
                          mk_state 3 ''done'' False True None]\<rparr> ex_user)
     = Response 200 ''Workflow release activated.''
   \<and> snd (activate \<lparr>wd_id = 1, wd_name = ''release'', wd_status = Def_DRAFT, wd_modified_by = None,
             wd_states = [mk_state 1 ''draft'' True False None]\<rparr> ex_user)
     = \<lparr>wd_id = 1, wd_name = ''release'', wd_status = Def_DRAFT, wd_modified_by = None,
             wd_states = [mk_state 1 ''draft'' True False None]\<rparr>"
  using activate_needs_initial_and_terminal [of
      "\<lparr>wd_id = 1, wd_name = ''release'', wd_status = Def_DRAFT, wd_modified_by = None,
             wd_states = [mk_state 1 ''draft'' True False None,
                          mk_state 3 ''done'' False True None]\<rparr>" ex_user]
    activate_needs_initial_and_terminal [of
      "\<lparr>wd_id = 1, wd_name = ''release'', wd_status = Def_DRAFT, wd_modified_by = None,
             wd_states = [mk_state 1 ''draft'' True False None]\<rparr>" ex_user]
  by (simp add: mk_state_def)

section \<open>Properties of the transition authorizer\<close>

text \<open>
  What \<open>can_execute_transition\<close> does, in the order of its tests, the first failure
  deciding: the transition leaves the engine's current state; it belongs to the engine's
  workflow; the required permission, if set, is held by the user.  Then, with a non-empty
  \<open>required_roles\<close>, the call raises \<open>AttributeError\<close> whatever roles the user holds.
  With no required role the condition decides: no condition allows the transition; a
  condition whose evaluation raises makes the check raise; otherwise the transition is
  allowed exactly when the value is truthy.  The function returns the verdict only, so no
  instance, request or history is written.
\<close>

lemma can_execute_transition_checks:
  fixes rt eng t user
  defines "verdict \<equiv> can_execute_transition rt eng t user"
  defines "from_ok \<equiv> tr_from_state t = st_id (current_state eng)"
  defines "wf_ok \<equiv> tr_workflow t = workflow eng"
  defines "perm_ok \<equiv> required_permission t = [] \<or> required_permission t \<in> set (u_permissions user)"
  shows "(\<not> from_ok \<longrightarrow> verdict = Inr (False, Some ''Transition not available from current state''))
    \<and> (from_ok \<and> \<not> wf_ok \<longrightarrow> verdict = Inr (False, Some ''Transition not part of this workflow''))
    \<and> (from_ok \<and> wf_ok \<and> \<not> perm_ok \<longrightarrow> verdict = Inr (False, Some ''Missing required permission''))
    \<and> (from_ok \<and> wf_ok \<and> perm_ok \<and> required_roles t \<noteq> [] \<longrightarrow> verdict = Inl AttributeError)
    \<and> (from_ok \<and> wf_ok \<and> perm_ok \<and> required_roles t = [] \<and> \<not> truthy rt (conditions t)
         \<longrightarrow> verdict = Inr (True, None))
    \<and> (from_ok \<and> wf_ok \<and> perm_ok \<and> required_roles t = [] \<and> truthy rt (conditions t)
         \<longrightarrow> verdict =
             (case evaluate rt (conditions t) (get_record_data (content_object (eng_instance eng))) of
                Inl err \<Rightarrow> Inl err
              | Inr v \<Rightarrow> if truthy rt v then Inr (True, None)
                         else Inr (False, Some ''Conditions not met'')))"
  unfolding verdict_def from_ok_def wf_ok_def perm_ok_def
  by (auto simp add: can_execute_transition_def can_execute_def evaluate_conditions_def
      split: sum.splits)

text \<open>A transition that fails on permission and condition at once reports the permission;
  one whose permission is held and whose condition is met is allowed.\<close>

lemma can_execute_transition_examples:
  "can_execute_transition ex_rt (ex_engine st_draft)
     ((mk_transition 1 ''submit'' 1 st_review)
        \<lparr>required_permission := ''batch.approve'', conditions := PBool False\<rparr>) ex_user
     = Inr (False, Some ''Missing required permission'')"
  "can_execute_transition ex_rt (ex_engine st_draft)
     ((mk_transition 1 ''submit'' 1 st_review)
        \<lparr>required_permission := ''batch.release'',
         conditions := PDict [(''=='', PList [PDict [(''var'', PStr ''status'')], PStr ''in_progress''])]\<rparr>)
       ex_user
     = Inr (True, None)"
  by (simp_all add: can_execute_transition_def can_execute_def evaluate_conditions_def
      mk_transition_def ex_engine_def engine_init_def ex_instance_def ex_record_def ex_user_def
      st_draft_def mk_state_def get_record_data_def record_getattr_def at_index_def get_var_def
      get_part_def)

text \<open>
  Claim C8 at the role check.  The transition \<open>submit\<close> leaves the current state \<open>draft\<close>,
  belongs to the workflow, asks for no permission and no condition, and requires the role
  \<open>qa\<close>.  The check neither passes nor answers \<open>Missing required role\<close>: it raises
  \<open>AttributeError\<close>, because \<open>can_execute\<close> reads \<open>user.roles\<close> and the user model has no
  such attribute.
\<close>

theorem can_execute_transition_required_roles_raise:
  "can_execute_transition ex_rt (ex_engine st_draft)
     ((mk_transition 1 ''submit'' 1 st_review)\<lparr>required_roles := [''qa'']\<rparr>) ex_user
   = Inl AttributeError"
  by (simp add: can_execute_transition_def can_execute_def mk_transition_def ex_engine_def
      engine_init_def ex_instance_def st_draft_def mk_state_def)

section \<open>Properties of the transition executor\<close>

lemma ex_can_submit:
  "can_execute_transition ex_rt (ex_engine st_draft)
     (tr_submit\<lparr>approval_rules := rs\<rparr>) ex_user = Inr (True, None)"
  by (simp add: can_execute_transition_def can_execute_def tr_submit_def mk_transition_def
      ex_engine_def engine_init_def ex_instance_def st_draft_def mk_state_def)

text \<open>
  Claim C9.  When the guards pass and the transition requires approval that the caller has
  not skipped, \<open>execute_transition\<close> returns success with a new pending request for this
  transition, made from its first approval rule.  The engine (instance, current state,
  entry time, deadline, status) is returned as it was and the tables differ only by the
  added request, so the history is as before.  Without an approval rule the call raises
  \<open>ValueError\<close> and nothing is written.
\<close>

theorem execute_transition_requires_approval:
  assumes "can_execute_transition rt eng t user = Inr (True, reason)"
    and "requires_approval t"
    and "\<not> skip_approval"
  shows "(approval_rules t = [] \<longrightarrow>
            execute_transition rt eng d t user notes skip_approval = Some (Inl ValueError))
    \<and> (\<forall>rule rest. approval_rules t = rule # rest \<longrightarrow>
          (\<exists>req. execute_transition rt eng d t user notes skip_approval
                   = Some (Inr ((True, Some ''Approval request created'', Some req), eng,
                                d\<lparr>approval_requests := approval_requests d @ [req],
                                  next_id := Suc (next_id d)\<rparr>))
               \<and> rq_status req = Req_PENDING
               \<and> rq_transition req = t
               \<and> rq_approval_rule req = rule
               \<and> requested_by req = user
               \<and> request_notes req = notes
               \<and> rq_instance req = wi_id (eng_instance eng)))"
  using assms
  by (subst execute_transition.simps, simp add: create_approval_request_def Let_def)+

text \<open>With no rule the call raises; with a rule the request is pending, the engine is
  unchanged, and the history and the instance table are as before.\<close>

theorem execute_transition_requires_approval_witness:
  "execute_transition ex_rt (ex_engine st_draft) (ex_db [tr_submit] st_draft)
     (tr_submit\<lparr>approval_rules := []\<rparr>) ex_user ''please'' False = Some (Inl ValueError)
   \<and> map_option (map_sum id (\<lambda>((ok, msg, req), eng, d).
          (ok, msg, map_option rq_status req, eng = ex_engine st_draft, state_history d,
           instances d = [ex_instance st_draft])))
       (execute_transition ex_rt (ex_engine st_draft) (ex_db [tr_submit] st_draft)
          (tr_submit\<lparr>approval_rules := [ex_rule AT_ANY 1]\<rparr>) ex_user ''please'' False)
     = Some (Inr (True, Some ''Approval request created'', Some Req_PENDING, True, [], True))"
proof -
  have ra: "\<And>rs. requires_approval (tr_submit\<lparr>approval_rules := rs\<rparr>)"
    by (simp add: tr_submit_def)
  show ?thesis
    using execute_transition_requires_approval [OF ex_can_submit ra, of False "[]"
        "ex_db [tr_submit] st_draft" "''please''"]
      execute_transition_requires_approval [OF ex_can_submit ra, of False "[ex_rule AT_ANY 1]"
        "ex_db [tr_submit] st_draft" "''please''"]
    by (auto simp add: ex_db_def)
qed

subsection \<open>Auto-transition chains\<close>

text \<open>A guard failure is reported, not raised, and changes nothing.\<close>

lemma execute_transition_guard_failure:
  "can_execute_transition rt eng t user = Inr (False, reason)
   \<Longrightarrow> execute_transition rt eng d t user nts skip_approval
       = Some (Inr ((False, reason, None), eng, d))"
  by (subst execute_transition.simps) simp

text \<open>\<open>execute_transition\<close> in terms of \<open>_check_auto_transition\<close>: after the state change
  it calls \<open>check_auto_transition\<close> on the new engine, propagates its exception and keeps
  its own message.\<close>

lemma execute_transition_check_auto:
  "execute_transition rt eng d t user nts skip_approval =
     (case can_execute_transition rt eng t user of
        Inl err \<Rightarrow> Some (Inl err)
      | Inr (can, reason) \<Rightarrow>
        if \<not> can then Some (Inr ((False, reason, None), eng, d))
        else if requires_approval t \<and> \<not> skip_approval then
          (case create_approval_request rt eng d t user nts of
             Inl err \<Rightarrow> Some (Inl err)
           | Inr (approval_request, d') \<Rightarrow>
               Some (Inr ((True, Some ''Approval request created'', Some approval_request),
                          eng, d')))
        else
          (case perform_transition rt eng d t user nts of
             Inl err \<Rightarrow> Some (Inl err)
           | Inr (new_state, eng', d') \<Rightarrow>
               if auto_transition_enabled new_state \<and> auto_transition_to new_state \<noteq> None
               then Option.bind (check_auto_transition rt eng' d' user)
                      (\<lambda>r. case r of
                             Inl err \<Rightarrow> Some (Inl err)
                           | Inr (eng'', d'') \<Rightarrow>
                               Some (Inr ((True, Some (''Transitioned to '' @ st_name new_state),
                                           None), eng'', d'')))
               else Some (Inr ((True, Some (''Transitioned to '' @ st_name new_state), None),
                               eng', d'))))"
  apply (subst execute_transition.simps)
  apply (simp add: check_auto_transition_def Let_def
      split: sum.splits prod.splits option.splits)
  apply (auto simp add: bind_eq_Some_conv bind_eq_None_conv split: Option.bind_splits sum.splits)
  done

lemma first_filter_None:
  "first (filter P xs) = None \<Longrightarrow> x \<in> set xs \<Longrightarrow> \<not> P x"
  by (induction xs) (auto split: if_splits)



text \<open>On the chain \<open>a\<close>, \<open>b\<close>, \<open>c\<close> the call enters \<open>b\<close>, chains into \<open>c\<close> and
  completes the instance, with one history entry per transition.\<close>

lemma chain_result:
  "map_option (map_sum id (\<lambda>(res, eng, d). (res, st_code (current_state eng),
       wi_status (eng_instance eng), map sh_action (state_history d))))
     (execute_transition ex_rt (ex_engine st_a) (ex_db [tr_ab3, tr_bc] st_a) tr_ab3 ex_user [] False)
   = Some (Inr ((True, Some ''Transitioned to b'', None), ''c'', Inst_COMPLETED,
               [''a_to_b'', ''b_to_c'']))"
  apply (subst execute_transition.simps)
  apply (simp add: can_execute_transition_def can_execute_def perform_transition_def Let_def
      auto_transition_of_def ex_db_def tr_ab3_def tr_bc_def st_b3_def st_c_def st_a_def
      mk_transition_def mk_state_def ex_engine_def engine_init_def ex_instance_def ex_user_def
      ex_rt_def ex_record_def)
  apply (subst execute_transition.simps)
  apply (simp add: can_execute_transition_def can_execute_def perform_transition_def Let_def
      auto_transition_of_def)
  done








section \<open>Properties of the approval orchestrator\<close>




text \<open>
  What \<open>process_approval\<close> does with a decision \<open>approved\<close> on a pending request without
  rejections: under \<open>single\<close> and \<open>any\<close> it approves at once, under \<open>all\<close> it approves
  when the approvals recorded, this one included, reach \<open>min_approvals\<close>; approving sets
  the request to approved and executes the transition for the requester with
  \<open>skip_approval=True\<close>.  Under every other policy the decision is only recorded.
\<close>

lemma process_approval_approved:
  assumes "rq_status request = Req_PENDING"
    and "rejected_count d request = 0"
  defines "satisfied \<equiv>
      (approval_type (rq_approval_rule request) \<in> {AT_SINGLE, AT_ANY})
      \<or> (approval_type (rq_approval_rule request) = AT_ALL
          \<and> Suc (approved_count d request) \<ge> min_approvals (rq_approval_rule request))"
  shows "\<exists>d1 notes.
     process_approval rt eng d request user ''approved'' comments signature
     = (if satisfied then
          Option.bind
            (execute_transition rt eng
               (d1\<lparr>approval_requests :=
                     save_request (approval_requests d1) (request\<lparr>rq_status := Req_APPROVED\<rparr>)\<rparr>)
               (rq_transition request) (requested_by request) notes True)
            (\<lambda>r. case r of
                   Inl err \<Rightarrow> Some (Inl err)
                 | Inr ((success, message, approval_request), eng', d') \<Rightarrow>
                     Some (Inr ((success, message), request\<lparr>rq_status := Req_APPROVED\<rparr>, eng', d')))
        else Some (Inr ((True, Some ''Decision recorded, waiting for more approvals''),
                        request, eng, d1)))
     \<and> d1 = d\<lparr>approval_decisions := approval_decisions d @
                 [\<lparr>dc_request = rq_id request, dc_decision = ''approved'',
                   decided_by = u_id user, dc_comments = comments,
                   dc_signature = signature\<rparr>]\<rparr>"
  using assms(1,2) unfolding satisfied_def
  by (cases "approval_type (rq_approval_rule request)")
     (auto simp add: process_approval_def Let_def approved_count_def rejected_count_def
        filter_filter conj_commute)

text \<open>
  Claim C1 at the policy \<open>majority\<close>.  \<open>process_approval\<close> has branches for \<open>single\<close>,
  \<open>all\<close> and \<open>any\<close> only.  A request under \<open>majority\<close> with \<open>min_approvals = 1\<close> that
  receives its first approval stays pending: the decision is recorded, the answer is
  \<open>waiting for more approvals\<close>, and no transition is executed.
\<close>

theorem process_approval_majority_stays_pending:
  "process_approval ex_rt (ex_engine st_draft)
     ((ex_db [tr_submit] st_draft)\<lparr>approval_requests := [ex_request AT_MAJORITY 1 tr_submit]\<rparr>)
     (ex_request AT_MAJORITY 1 tr_submit) ex_user ''approved'' [] None
   = Some (Inr ((True, Some ''Decision recorded, waiting for more approvals''),
                ex_request AT_MAJORITY 1 tr_submit, ex_engine st_draft,
                (ex_db [tr_submit] st_draft)
                  \<lparr>approval_requests := [ex_request AT_MAJORITY 1 tr_submit],
                   approval_decisions :=
                     [\<lparr>dc_request = 1, dc_decision = ''approved'', decided_by = 1,
                       dc_comments = [], dc_signature = None\<rparr>]\<rparr>))"
  by (simp add: process_approval_def Let_def ex_request_def ex_rule_def ex_db_def ex_user_def)

section \<open>Properties of the escalation sweep\<close>

lemma first_filter_Some_split:
  "first (filter P xs) = Some x
   \<Longrightarrow> \<exists>pre post. xs = pre @ x # post \<and> (\<forall>y \<in> set pre. \<not> P y) \<and> P x"
proof (induction xs)
  case Nil
  then show ?case by simp
next
  case (Cons a xs)
  show ?case
  proof (cases "P a")
    case True
    with Cons.prems have "a = x" by simp
    with True have "a # xs = [] @ x # xs \<and> (\<forall>y \<in> set []. \<not> P y) \<and> P x" by simp
    then show ?thesis by blast
  next
    case False
    with Cons.prems have "first (filter P xs) = Some x" by simp
    then obtain pre post where "xs = pre @ x # post" "\<forall>y \<in> set pre. \<not> P y" "P x"
      using Cons.IH by blast
    with False have "a # xs = (a # pre) @ x # post \<and> (\<forall>y \<in> set (a # pre). \<not> P y) \<and> P x"
      by simp
    then show ?thesis by blast
  qed
qed

text \<open>
  Claim C4, as the code has it.  For a state whose timeout action is \<open>transition\<close>,
  \<open>_handle_timeout\<close> takes the first transition, in the order of the table, that is
  active, belongs to the workflow, leaves the current state and has a code containing
  \<open>timeout\<close> (no transition before it in the table is such), and executes it for the first
  user whose email is \<open>system@ebr.local\<close> with \<open>skip_approval=True\<close>; when there is no
  such transition or no such user it does nothing.
\<close>

theorem handle_timeout_by_name:
  assumes "timeout_action (current_state eng) = ''transition''"
  shows "(\<exists>pre t post upre su upost.
            transitions d = pre @ t # post
            \<and> (\<forall>x \<in> set pre. \<not> (tr_is_active x \<and> tr_workflow x = workflow eng
                   \<and> tr_from_state x = st_id (current_state eng)
                   \<and> str_contains (tr_code x) ''timeout''))
            \<and> tr_is_active t \<and> tr_workflow t = workflow eng
            \<and> tr_from_state t = st_id (current_state eng)
            \<and> str_contains (tr_code t) ''timeout''
            \<and> users d = upre @ su # upost
            \<and> (\<forall>u \<in> set upre. email u \<noteq> ''system@ebr.local'')
            \<and> email su = ''system@ebr.local''
            \<and> handle_timeout rt eng d
                = map_option (map_sum id snd)
                    (execute_transition rt eng d t su ''Auto-transition due to timeout'' True))
       \<or> (((\<forall>t \<in> set (transitions d). \<not> (tr_is_active t \<and> tr_workflow t = workflow eng
                 \<and> tr_from_state t = st_id (current_state eng)
                 \<and> str_contains (tr_code t) ''timeout''))
            \<or> (\<forall>su \<in> set (users d). email su \<noteq> ''system@ebr.local''))
           \<and> handle_timeout rt eng d = Some (Inr (eng, d)))"
proof (cases "timeout_transition_of eng d (current_state eng)")
  case None
  have "\<forall>t \<in> set (transitions d). \<not> (tr_is_active t \<and> tr_workflow t = workflow eng
                 \<and> tr_from_state t = st_id (current_state eng)
                 \<and> str_contains (tr_code t) ''timeout'')"
    using first_filter_None [OF None [unfolded timeout_transition_of_def]] by blast
  moreover have "handle_timeout rt eng d = Some (Inr (eng, d))"
    using assms None by (simp add: handle_timeout_def Let_def)
  ultimately show ?thesis by blast
next
  case (Some t)
  from first_filter_Some_split [OF Some [unfolded timeout_transition_of_def]]
  obtain pre post where t: "transitions d = pre @ t # post"
    "\<forall>x \<in> set pre. \<not> (tr_is_active x \<and> tr_workflow x = workflow eng
         \<and> tr_from_state x = st_id (current_state eng) \<and> str_contains (tr_code x) ''timeout'')"
    "tr_is_active t" "tr_workflow t = workflow eng"
    "tr_from_state t = st_id (current_state eng)" "str_contains (tr_code t) ''timeout''"
    by blast
  show ?thesis
  proof (cases "first (filter (\<lambda>u. email u = ''system@ebr.local'') (users d))")
    case None
    have "\<forall>su \<in> set (users d). email su \<noteq> ''system@ebr.local''"
      using first_filter_None [OF None] by blast
    moreover have "handle_timeout rt eng d = Some (Inr (eng, d))"
      using assms Some None by (simp add: handle_timeout_def Let_def)
    ultimately show ?thesis by blast
  next
    case su: (Some su)
    from first_filter_Some_split [OF su]
    obtain upre upost where s: "users d = upre @ su # upost"
      "\<forall>u \<in> set upre. email u \<noteq> ''system@ebr.local''" "email su = ''system@ebr.local''"
      by blast
    have "handle_timeout rt eng d
            = map_option (map_sum id snd)
                (execute_transition rt eng d t su ''Auto-transition due to timeout'' True)"
      using assms Some su
      by (cases "execute_transition rt eng d t su ''Auto-transition due to timeout'' True")
         (auto simp add: handle_timeout_def Let_def split: sum.splits)
    with t s show ?thesis by blast
  qed
qed

lemma ex_timeout_facts:
  "transitions (ex_timeout_db c) = [tr_expire c]"
  "transitions (ex_timeout_db2 c c') = [tr_expire c, tr_cancel c']"
  "users (ex_timeout_db c) = [ex_user, ex_system_user]"
  "users (ex_timeout_db2 c c') = [ex_user, ex_system_user]"
  "tr_is_active (tr_expire c)" "tr_workflow (tr_expire c) = 1" "tr_from_state (tr_expire c) = 1"
  "tr_code (tr_expire c) = c"
  "tr_is_active (tr_cancel c)" "tr_workflow (tr_cancel c) = 1" "tr_from_state (tr_cancel c) = 1"
  "tr_code (tr_cancel c) = c"
  "workflow (ex_engine st_waiting) = 1" "st_id (current_state (ex_engine st_waiting)) = 1"
  "timeout_action (current_state (ex_engine st_waiting)) = ''transition''"
  "email ex_user = ''qa@ebr.local''" "email ex_system_user = ''system@ebr.local''"
  by (simp_all add: ex_timeout_db_def ex_timeout_db2_def ex_db_def tr_expire_def tr_cancel_def
      mk_transition_def ex_engine_def engine_init_def ex_instance_def st_waiting_def mk_state_def
      ex_user_def ex_system_user_def)

text \<open>Of the two outgoing transitions \<open>review_timeout\<close> and \<open>timeout_cancel\<close>, both
  matching, it is the first of the table that is run, by the system user, who is the
  second user of the table.\<close>

theorem handle_timeout_by_name_witness:
  "handle_timeout ex_rt (ex_engine st_waiting) (ex_timeout_db2 ''review_timeout'' ''timeout_cancel'')
     = map_option (map_sum id snd)
         (execute_transition ex_rt (ex_engine st_waiting)
            (ex_timeout_db2 ''review_timeout'' ''timeout_cancel'')
            (tr_expire ''review_timeout'') ex_system_user ''Auto-transition due to timeout'' True)"
  using handle_timeout_by_name [of "ex_engine st_waiting"
      "ex_timeout_db2 ''review_timeout'' ''timeout_cancel''" ex_rt]
  by (auto simp add: ex_timeout_facts append_eq_Cons_conv Cons_eq_append_conv)

text \<open>The instance ends in \<open>expired\<close>, the target of the first transition, not in
  \<open>cancelled\<close>.\<close>

lemma handle_timeout_first_of_two:
  "map_option (map_sum id (st_code \<circ> current_state \<circ> fst))
     (handle_timeout ex_rt (ex_engine st_waiting)
        (ex_timeout_db2 ''review_timeout'' ''timeout_cancel''))
     = Some (Inr ''expired'')"
  apply (simp add: handle_timeout_def timeout_transition_of_def Let_def ex_timeout_db2_def
      ex_db_def tr_expire_def tr_cancel_def mk_transition_def st_waiting_def st_expired_def
      st_cancelled_def mk_state_def ex_engine_def engine_init_def ex_instance_def ex_user_def
      ex_system_user_def)
  apply (subst execute_transition.simps)
  apply (simp add: can_execute_transition_def can_execute_def perform_transition_def Let_def)
  done

text \<open>
  Claim C4 as stated fails: the transition is found by its name.  The same configuration
  moves the timed-out instance to \<open>expired\<close> when the outgoing transition is called
  \<open>review_timeout\<close> and leaves it in \<open>waiting\<close> when it is called \<open>expire\<close>; nothing
  else designates it.
\<close>

theorem handle_timeout_name_matching_counterexample:
  "map_option (map_sum id (st_code \<circ> current_state \<circ> fst))
     (handle_timeout ex_rt (ex_engine st_waiting) (ex_timeout_db ''review_timeout''))
     = Some (Inr ''expired'')
   \<and> map_option (map_sum id (st_code \<circ> current_state \<circ> fst))
     (handle_timeout ex_rt (ex_engine st_waiting) (ex_timeout_db ''expire''))
     = Some (Inr ''waiting'')"
  apply (simp add: handle_timeout_def timeout_transition_of_def Let_def ex_timeout_db_def
      ex_db_def tr_expire_def mk_transition_def st_waiting_def st_expired_def mk_state_def
      ex_engine_def engine_init_def ex_instance_def ex_user_def ex_system_user_def)
  apply (subst execute_transition.simps)
  apply (simp add: can_execute_transition_def can_execute_def perform_transition_def Let_def)
  done

text \<open>The sweep over one timed-out instance in \<open>waiting\<close>: it is moved to \<open>expired\<close>,
  which is terminal, with one history entry.\<close>

lemma sweep_example:
  "map_option (\<lambda>(r, d). (map_sum id (map (\<lambda>i. (st_code (wi_current_state i), wi_status i))) r,
                         map sh_action (state_history d)))
     (check_timed_out_states ex_rt
        ((ex_timeout_db ''review_timeout'')
           \<lparr>instances := [(ex_instance st_waiting)\<lparr>state_deadline := Some 3600\<rparr>]\<rparr>))
   = Some (Inr [(''expired'', Inst_COMPLETED)], [''review_timeout''])"
  apply (simp add: check_timed_out_states_def ex_timeout_db_def ex_db_def ex_instance_def
      ex_rt_def handle_timeout_def timeout_transition_of_def Let_def engine_init_def
      st_waiting_def mk_state_def tr_expire_def mk_transition_def ex_user_def ex_system_user_def
      st_expired_def)
  apply (subst execute_transition.simps)
  apply (simp add: can_execute_transition_def can_execute_def perform_transition_def Let_def)
  done

end
